theory Spec2Isabelle
  imports Main "HOL-Library.AList"
begin

section \<open>The browser, the storage area and the network, as the background script sees them\<close>

text \<open>
  The repository holds four revisions of the extension's background script:
  \<^item> \<^verbatim>\<open>src/extension/background.js\<close> (globals \<^verbatim>\<open>lastTabId\<close>, \<^verbatim>\<open>startTime\<close>; entry point
    \<^verbatim>\<open>handleTabChange\<close>); its functions keep their names here;
  \<^item> \<^verbatim>\<open>src/unnamed/part_000\<close> (global \<^verbatim>\<open>activeTabInfo\<close>); its functions carry the
    suffix \<open>_p0\<close>;
  \<^item> the two scripts of \<^verbatim>\<open>src/unnamed/part_001\<close> (lines 1-209 and 211-415); their
    functions carry the suffixes \<open>_p1a\<close> and \<open>_p1b\<close> (\<open>_p1\<close> where both agree).

  Every handler is modelled as one atomic step on an explicit state: the slot (the
  script's globals), the persisted storage area, and a record of the requests sent and
  of the ledger writes made so far.
  What a handler observes of the outside world during its run (the clock, the tab table,
  URL parsing, whether storage calls resolve, what the backend answers) is an \<open>env\<close>.
  Handlers are asynchronous in the source; here each runs to completion before the next
  event is taken.
\<close>

record tab =
  url :: "string option"
  title :: "string option"
  active :: bool

record changeInfo =
  ci_url :: "string option"
  ci_status :: "string option"

text \<open>
  A JavaScript number as the ledger holds it: an integer number of seconds, or
  \<^verbatim>\<open>NaN\<close>. \<open>add\<close> is \<^verbatim>\<open>+\<close> on numbers and \<open>positive x\<close> is \<^verbatim>\<open>x > 0\<close>; \<^verbatim>\<open>NaN\<close> is
  contagious and compares false.
\<close>

datatype number = Num int | NaN

fun add :: "number \<Rightarrow> number \<Rightarrow> number" where
  "add (Num a) (Num b) = Num (a + b)"
| "add (Num a) NaN = NaN"
| "add NaN y = NaN"

fun positive :: "number \<Rightarrow> bool" where
  "positive (Num a) = (0 < a)"
| "positive NaN = False"

record entry =
  entryTitle :: "string option"
  totalTime :: number

text \<open>
  \<^verbatim>\<open>websiteTime\<close> is a JavaScript object keyed by host name. Its own keys are kept in
  insertion order, so it is an association list: assigning to a present key replaces the
  value in place, assigning to an absent key appends (\<open>AList.update\<close>), and
  \<^verbatim>\<open>delete\<close> drops the key (\<open>AList.delete\<close>).

  The object is an ordinary one, so reading \<^verbatim>\<open>websiteTime[url]\<close> for a key it does not own
  finds what \<^verbatim>\<open>Object.prototype\<close> has under that name, if anything: a function for eleven
  of the names below (truthy, and without a \<^verbatim>\<open>totalTime\<close>), and for \<^verbatim>\<open>__proto__\<close> the
  prototype itself. Assigning to an inherited name creates an own key, except for
  \<^verbatim>\<open>__proto__\<close>, whose setter replaces the object's prototype and creates none.
\<close>

type_synonym ledger = "(string \<times> entry) list"

definition objectPrototype :: "string list" where
  "objectPrototype =
     [''constructor'', ''__defineGetter__'', ''__defineSetter__'', ''hasOwnProperty'',
      ''__lookupGetter__'', ''__lookupSetter__'', ''isPrototypeOf'', ''propertyIsEnumerable'',
      ''toString'', ''valueOf'', ''__proto__'', ''toLocaleString'']"

record storage =
  websiteTime :: ledger
  token :: "string option"
  username :: "string option"

datatype request =
    TrackReq string "string option" number string
  | LoginReq string string

datatype body =
    Unparsable
  | JNull
  | JObject (tokenField: "string option") (errorField: "string option")

datatype response =
    NetworkError
  | Response bool body

datatype reply =
    Success
  | Error "string option"

record env =
  nowEnd :: int
  nowStart :: int
  tabs :: "int \<Rightarrow> tab option"
  hostname :: "string \<Rightarrow> string option"
  activeTabIn :: "int \<Rightarrow> int option"
  fetch :: "request \<Rightarrow> response"
  saveGetOk :: bool
  saveSetOk :: bool
  getOk :: bool
  setOk :: bool

text \<open>
  \<open>nowEnd\<close> is \<^verbatim>\<open>Date.now()\<close> as read by the commit, \<open>nowStart\<close> as read when a slot
  is opened; \<open>tabs\<close> is \<^verbatim>\<open>chrome.tabs.get\<close> (\<open>None\<close>: the identifier does not resolve);
  \<open>hostname u\<close> is \<^verbatim>\<open>new URL(u).hostname\<close> (\<open>None\<close>: the constructor throws);
  \<open>activeTabIn w\<close> is the first result of \<^verbatim>\<open>chrome.tabs.query({active: true, windowId: w})\<close>;
  \<open>saveGetOk\<close>/\<open>saveSetOk\<close> say whether the storage read/write inside
  \<^verbatim>\<open>saveTimeForLastTab\<close> resolves, \<open>getOk\<close>/\<open>setOk\<close> the same for the handler's own
  storage calls.
\<close>

record 'slot state =
  slot :: 'slot
  store :: storage
  sent :: "request list"
  committed :: "(string \<times> int \<times> int) list"

text \<open>
  \<open>sent\<close> and \<open>committed\<close> are not variables of the script. They record what it did:
  the requests handed to \<^verbatim>\<open>fetch\<close>, in order, and, for every write of the ledger, the site
  key written together with the interval the write accounts for (the slot's start time
  and the time read by the commit).
\<close>

subsection \<open>JavaScript truthiness, \<^verbatim>\<open>startsWith\<close>, \<^verbatim>\<open>Math.round\<close>\<close>

definition truthy_num :: "int option \<Rightarrow> bool" where
  "truthy_num x = (case x of None \<Rightarrow> False | Some n \<Rightarrow> n \<noteq> 0)"

definition truthy_str :: "string option \<Rightarrow> bool" where
  "truthy_str x = (case x of None \<Rightarrow> False | Some s \<Rightarrow> s \<noteq> [])"

definition startsWith :: "string \<Rightarrow> string \<Rightarrow> bool" where
  "startsWith s p = (take (length p) s = p)"

definition internal :: "string \<Rightarrow> bool" where
  "internal u = startsWith u ''chrome://''"

text \<open>
  \<^verbatim>\<open>Math.round((endTime - startTime) / 1000)\<close> on integer millisecond stamps: the
  quotient is rounded to the nearest integer, a half towards plus infinity. On integers
  that is the floor of \<open>(d + 500) / 1000\<close>. (The double-precision quotient of an integer
  below \<open>2\<^sup>5\<^sup>3\<close> by 1000 lies on the same side of every half as the exact one, so the
  integer formula is what the script computes.)
\<close>

definition duration :: "int \<Rightarrow> int \<Rightarrow> int" where
  "duration endTime start = (endTime - start + 500) div 1000"

text \<open>
  \<^verbatim>\<open>chrome.tabs.TAB_ID_NONE\<close> and \<^verbatim>\<open>chrome.windows.WINDOW_ID_NONE\<close> are constants of the
  browser's API, both \<open>-1\<close>. The events are what the browser delivers to the listeners:
  \<^verbatim>\<open>tabs.onActivated\<close>, \<^verbatim>\<open>tabs.onUpdated\<close>, \<^verbatim>\<open>tabs.onRemoved\<close>,
  \<^verbatim>\<open>windows.onFocusChanged\<close> and \<^verbatim>\<open>alarms.onAlarm\<close>.
\<close>

definition TAB_ID_NONE :: int where
  "TAB_ID_NONE = - 1"

definition WINDOW_ID_NONE :: int where
  "WINDOW_ID_NONE = - 1"

definition sendDataAlarm :: string where
  "sendDataAlarm = ''sendDataAlarm''"

datatype event =
    Activated int
  | Updated int changeInfo tab
  | Removed int
  | FocusChanged int
  | Alarm string

section \<open>\<^verbatim>\<open>src/unnamed/part_000\<close>: the slot caches the tab's URL and title\<close>

record activeTabInfo =
  info_id :: "int option"
  info_url :: "string option"
  info_title :: "string option"
  info_startTime :: "int option"

text \<open>Lines 8-13 and 54: the slot with nothing in it.\<close>

definition noTab :: activeTabInfo where
  "noTab = \<lparr>info_id = None, info_url = None, info_title = None, info_startTime = None\<rparr>"

text \<open>
  Lines 41-44: create the entry with the cached title if \<^verbatim>\<open>websiteTime[url]\<close> is falsy,
  then add to \<^verbatim>\<open>websiteTime[url].totalTime\<close>. For a key the ledger does not own but
  \<^verbatim>\<open>Object.prototype\<close> has, the value read is truthy: no entry is created, the addition
  lands on the inherited object, and the ledger that is stored is the one that was read.
\<close>

definition accumulate_p0 :: "string \<Rightarrow> string option \<Rightarrow> int \<Rightarrow> ledger \<Rightarrow> ledger" where
  "accumulate_p0 h ttl d w =
     (case map_of w h of
        Some x \<Rightarrow> AList.map_entry h (\<lambda>y. y\<lparr>totalTime := add (totalTime y) (Num d)\<rparr>) w
      | None \<Rightarrow>
         if h \<in> set objectPrototype then w
         else AList.map_entry h (\<lambda>y. y\<lparr>totalTime := add (totalTime y) (Num d)\<rparr>)
                (AList.update h \<lparr>entryTitle = ttl, totalTime = Num 0\<rparr> w))"

text \<open>Lines 33-50: the body of the \<^verbatim>\<open>try\<close>; every throw ends in the \<^verbatim>\<open>catch\<close>, which only logs.\<close>

definition commit_p0 :: "env \<Rightarrow> int \<Rightarrow> int \<Rightarrow> activeTabInfo state \<Rightarrow> activeTabInfo state" where
  "commit_p0 e t0 d st =
     (case info_url (slot st) of
        None \<Rightarrow> st
      | Some u \<Rightarrow>
         (case hostname e u of
            None \<Rightarrow> st
          | Some h \<Rightarrow>
             if saveGetOk e \<and> saveSetOk e
             then st\<lparr>store := (store st)\<lparr>websiteTime :=
                         accumulate_p0 h (info_title (slot st)) d (websiteTime (store st))\<rparr>,
                     committed := committed st @ [(h, t0, nowEnd e)]\<rparr>
             else st))"

text \<open>
  Lines 23-55. The guard of line 24 is JavaScript truthiness: an identifier or a start
  time that is \<^verbatim>\<open>null\<close> or \<open>0\<close> returns at once. Past the guard the slot is reset on
  every path (line 54).
\<close>

definition saveTimeForLastTab_p0 :: "env \<Rightarrow> activeTabInfo state \<Rightarrow> activeTabInfo state" where
  "saveTimeForLastTab_p0 e st =
     (if truthy_num (info_id (slot st)) \<and> truthy_num (info_startTime (slot st))
      then
        (case info_startTime (slot st) of
           None \<Rightarrow> st
         | Some t0 \<Rightarrow>
            (if 0 < duration (nowEnd e) t0
             then commit_p0 e t0 (duration (nowEnd e) t0) st
             else st)\<lparr>slot := noTab\<rparr>)
      else st)"

text \<open>
  Lines 61-84: commit, then look the new tab up; a tab that does not resolve, has no URL
  or shows an internal page opens no slot.
\<close>

definition processTabChange_p0 :: "env \<Rightarrow> int \<Rightarrow> activeTabInfo state \<Rightarrow> activeTabInfo state" where
  "processTabChange_p0 e tabId st =
     (if tabId = TAB_ID_NONE then st
      else
        (let st1 = saveTimeForLastTab_p0 e st in
         case tabs e tabId of
           None \<Rightarrow> st1
         | Some t \<Rightarrow>
            (case url t of
               None \<Rightarrow> st1
             | Some u \<Rightarrow>
                if u \<noteq> [] \<and> \<not> internal u
                then st1\<lparr>slot := \<lparr>info_id = Some tabId, info_url = Some u,
                                     info_title = title t, info_startTime = Some (nowStart e)\<rparr>\<rparr>
                else st1)))"

text \<open>Lines 96-100, 103-108 and 111-122: the listeners.\<close>

definition onUpdated_p0 :: "env \<Rightarrow> int \<Rightarrow> changeInfo \<Rightarrow> tab \<Rightarrow> activeTabInfo state \<Rightarrow> activeTabInfo state" where
  "onUpdated_p0 e tabId ci t st =
     (if active t \<and> ci_status ci = Some ''complete'' then processTabChange_p0 e tabId st else st)"

definition onRemoved_p0 :: "env \<Rightarrow> int \<Rightarrow> activeTabInfo state \<Rightarrow> activeTabInfo state" where
  "onRemoved_p0 e tabId st =
     (if info_id (slot st) = Some tabId then saveTimeForLastTab_p0 e st else st)"

definition onFocusChanged_p0 :: "env \<Rightarrow> int \<Rightarrow> activeTabInfo state \<Rightarrow> activeTabInfo state" where
  "onFocusChanged_p0 e windowId st =
     (if windowId = WINDOW_ID_NONE then saveTimeForLastTab_p0 e st
      else
        (case activeTabIn e windowId of
           None \<Rightarrow> st
         | Some tabId \<Rightarrow> processTabChange_p0 e tabId st))"

text \<open>
  \<^verbatim>\<open>sendTimeDataToBackend\<close> (lines 175-202) returns true exactly when the fetch resolves
  with \<^verbatim>\<open>response.ok\<close>; a network error and a non-2xx answer both give false.
\<close>

definition trackRequest_p0 :: "string \<Rightarrow> string \<times> entry \<Rightarrow> request" where
  "trackRequest_p0 tok p = TrackReq (fst p) (entryTitle (snd p)) (totalTime (snd p)) tok"

definition sendTimeDataToBackend_p0 :: "env \<Rightarrow> string \<Rightarrow> string \<times> entry \<Rightarrow> bool" where
  "sendTimeDataToBackend_p0 e tok p =
     (case fetch e (trackRequest_p0 tok p) of
        NetworkError \<Rightarrow> False
      | Response ok b \<Rightarrow> ok)"

definition successfullySyncedUrls :: "env \<Rightarrow> string \<Rightarrow> ledger \<Rightarrow> string list" where
  "successfullySyncedUrls e tok w = map fst (filter (sendTimeDataToBackend_p0 e tok) w)"

text \<open>Lines 147-167: dispatch every entry, then delete the keys that were sent.\<close>

definition sync_p0 :: "env \<Rightarrow> string \<Rightarrow> activeTabInfo state \<Rightarrow> activeTabInfo state" where
  "sync_p0 e tok st =
     (let w = websiteTime (store st);
          st' = st\<lparr>sent := sent st @ map (trackRequest_p0 tok) w\<rparr>
      in if successfullySyncedUrls e tok w \<noteq> [] \<and> setOk e
         then st'\<lparr>store := (store st)\<lparr>websiteTime :=
                   fold AList.delete (successfullySyncedUrls e tok w) w\<rparr>\<rparr>
         else st')"

text \<open>
  Lines 133-169. The token is read after the forced commit; a storage read that rejects
  ends the listener there.
\<close>

definition onAlarm_p0 :: "env \<Rightarrow> string \<Rightarrow> activeTabInfo state \<Rightarrow> activeTabInfo state" where
  "onAlarm_p0 e name st =
     (if name = sendDataAlarm
      then
        (let st1 = saveTimeForLastTab_p0 e st in
         if getOk e
         then
           (case token (store st1) of
              None \<Rightarrow> st1
            | Some tok \<Rightarrow>
               if tok \<noteq> [] \<and> websiteTime (store st1) \<noteq> []
               then sync_p0 e tok st1
               else st1)
         else st1)
      else st)"

text \<open>
  \<open>run_p0\<close> is the serialised execution: the handler of an event has finished, awaits
  included, before the handler of the next event starts. The listeners of the source do
  not wait for one another, so this is a condition on the schedule, stated with every
  property of runs that depends on it.
\<close>

fun step_p0 :: "env \<Rightarrow> event \<Rightarrow> activeTabInfo state \<Rightarrow> activeTabInfo state" where
  "step_p0 e (Activated tabId) st = processTabChange_p0 e tabId st"
| "step_p0 e (Updated tabId ci t) st = onUpdated_p0 e tabId ci t st"
| "step_p0 e (Removed tabId) st = onRemoved_p0 e tabId st"
| "step_p0 e (FocusChanged windowId) st = onFocusChanged_p0 e windowId st"
| "step_p0 e (Alarm name) st = onAlarm_p0 e name st"

fun run_p0 :: "(env \<times> event) list \<Rightarrow> activeTabInfo state \<Rightarrow> activeTabInfo state" where
  "run_p0 [] st = st"
| "run_p0 (x # xs) st = run_p0 xs (step_p0 (fst x) (snd x) st)"

definition emptyStorage :: storage where
  "emptyStorage = \<lparr>websiteTime = [], token = None, username = None\<rparr>"

definition init_p0 :: "activeTabInfo state" where
  "init_p0 = \<lparr>slot = noTab, store = emptyStorage, sent = [], committed = []\<rparr>"

section \<open>\<^verbatim>\<open>src/extension/background.js\<close>: the slot is a tab identifier and a start time\<close>

record timing =
  lastTabId :: "int option"
  startTime :: "int option"

definition idle :: timing where
  "idle = \<lparr>lastTabId = None, startTime = None\<rparr>"

text \<open>
  Lines 59-63: the entry is replaced by one with the new title and the new total. For a
  key the ledger does not own but \<^verbatim>\<open>Object.prototype\<close> has, \<^verbatim>\<open>websiteTime[url]\<close> is truthy
  and its \<^verbatim>\<open>totalTime\<close> is undefined, so the new total is \<^verbatim>\<open>NaN\<close>; the assignment
  creates the own key, except for \<^verbatim>\<open>__proto__\<close>, where it creates none.
\<close>

definition accumulate :: "string \<Rightarrow> string option \<Rightarrow> int \<Rightarrow> ledger \<Rightarrow> ledger" where
  "accumulate h ttl d w =
     (case map_of w h of
        Some x \<Rightarrow> AList.update h \<lparr>entryTitle = ttl, totalTime = add (totalTime x) (Num d)\<rparr> w
      | None \<Rightarrow>
         if h = ''__proto__'' then w
         else if h \<in> set objectPrototype
         then AList.update h \<lparr>entryTitle = ttl, totalTime = NaN\<rparr> w
         else AList.update h \<lparr>entryTitle = ttl, totalTime = Num d\<rparr> w)"

text \<open>
  Lines 47-72: the tab is looked up again by its identifier; an identifier that does not
  resolve gives an undefined \<^verbatim>\<open>tab\<close>, and nothing is written.
\<close>

definition commit :: "env \<Rightarrow> int \<Rightarrow> int \<Rightarrow> int \<Rightarrow> 'a state \<Rightarrow> 'a state" where
  "commit e i t0 d st =
     (case tabs e i of
        None \<Rightarrow> st
      | Some t \<Rightarrow>
         (case url t of
            None \<Rightarrow> st
          | Some u \<Rightarrow>
             if u \<noteq> [] \<and> \<not> internal u
             then
               (case hostname e u of
                  None \<Rightarrow> st
                | Some h \<Rightarrow>
                   if saveGetOk e \<and> saveSetOk e
                   then st\<lparr>store := (store st)\<lparr>websiteTime :=
                               accumulate h (title t) d (websiteTime (store st))\<rparr>,
                           committed := committed st @ [(h, t0, nowEnd e)]\<rparr>
                   else st)
             else st))"

text \<open>
  Lines 40-74. Nothing here assigns \<^verbatim>\<open>lastTabId\<close> or \<^verbatim>\<open>startTime\<close>: the slot is left
  to the caller.
\<close>

definition saveTimeForLastTab :: "env \<Rightarrow> timing state \<Rightarrow> timing state" where
  "saveTimeForLastTab e st =
     (if truthy_num (lastTabId (slot st)) \<and> truthy_num (startTime (slot st))
      then
        (case lastTabId (slot st) of
           None \<Rightarrow> st
         | Some i \<Rightarrow>
            (case startTime (slot st) of
               None \<Rightarrow> st
             | Some t0 \<Rightarrow>
                if duration (nowEnd e) t0 \<le> 0 then st
                else commit e i t0 (duration (nowEnd e) t0) st))
      else st)"

text \<open>
  The same function in its two phases. \<open>pendingCommit\<close> is what it has read from the slot
  and the clock when it reaches its first \<^verbatim>\<open>await\<close> (lines 41-49); \<open>resumeCommit\<close> is what it
  does when it is resumed (lines 49-72). Run without interruption, the two phases are
  \<open>saveTimeForLastTab\<close>.
\<close>

definition pendingCommit :: "env \<Rightarrow> timing state \<Rightarrow> (int \<times> int \<times> int) option" where
  "pendingCommit e st =
     (if truthy_num (lastTabId (slot st)) \<and> truthy_num (startTime (slot st))
      then
        (case lastTabId (slot st) of
           None \<Rightarrow> None
         | Some i \<Rightarrow>
            (case startTime (slot st) of
               None \<Rightarrow> None
             | Some t0 \<Rightarrow>
                if duration (nowEnd e) t0 \<le> 0 then None
                else Some (i, t0, duration (nowEnd e) t0)))
      else None)"

definition resumeCommit :: "env \<Rightarrow> (int \<times> int \<times> int) option \<Rightarrow> timing state \<Rightarrow> timing state" where
  "resumeCommit e p st =
     (case p of
        None \<Rightarrow> st
      | Some x \<Rightarrow> commit e (fst x) (fst (snd x)) (snd (snd x)) st)"

text \<open>Lines 21-30, 12-16 and 32-38.\<close>

definition handleTabChange :: "env \<Rightarrow> int \<Rightarrow> timing state \<Rightarrow> timing state" where
  "handleTabChange e tabId st =
     (if lastTabId (slot st) \<noteq> None \<and> startTime (slot st) \<noteq> None
         \<and> lastTabId (slot st) \<noteq> Some tabId
      then saveTimeForLastTab e st
      else st)\<lparr>slot := \<lparr>lastTabId = Some tabId, startTime = Some (nowStart e)\<rparr>\<rparr>"

text \<open>
  Two calls of \<^verbatim>\<open>handleTabChange\<close> that overlap: the second event arrives while the first
  handler is suspended in its commit, so both read the slot (lines 24 and 41-43) before
  either assigns it (lines 28-29). The first handler then finishes, and the second after
  it.
\<close>

definition overlapped :: "env \<Rightarrow> int \<Rightarrow> env \<Rightarrow> int \<Rightarrow> timing state \<Rightarrow> timing state" where
  "overlapped e1 tab1 e2 tab2 st =
     (let p1 = (if lastTabId (slot st) \<noteq> None \<and> startTime (slot st) \<noteq> None
                   \<and> lastTabId (slot st) \<noteq> Some tab1
                then pendingCommit e1 st else None);
          p2 = (if lastTabId (slot st) \<noteq> None \<and> startTime (slot st) \<noteq> None
                   \<and> lastTabId (slot st) \<noteq> Some tab2
                then pendingCommit e2 st else None);
          st1 = (resumeCommit e1 p1 st)\<lparr>slot := \<lparr>lastTabId = Some tab1, startTime = Some (nowStart e1)\<rparr>\<rparr>
      in (resumeCommit e2 p2 st1)\<lparr>slot := \<lparr>lastTabId = Some tab2, startTime = Some (nowStart e2)\<rparr>\<rparr>)"

definition onUpdated :: "env \<Rightarrow> int \<Rightarrow> changeInfo \<Rightarrow> timing state \<Rightarrow> timing state" where
  "onUpdated e tabId ci st = (if truthy_str (ci_url ci) then handleTabChange e tabId st else st)"

definition handleTabRemoved :: "env \<Rightarrow> int \<Rightarrow> timing state \<Rightarrow> timing state" where
  "handleTabRemoved e tabId st =
     (if lastTabId (slot st) = Some tabId
      then (saveTimeForLastTab e st)\<lparr>slot := idle\<rparr>
      else st)"

text \<open>
  Lines 91-102: one request for every own key whose total is positive. Each call of
  \<^verbatim>\<open>sendTimeDataToBackend\<close> reads the token again and reports nothing back.
\<close>

definition trackRequests :: "string \<Rightarrow> ledger \<Rightarrow> request list" where
  "trackRequests tok w =
     map (\<lambda>p. TrackReq (fst p) (entryTitle (snd p)) (totalTime (snd p)) tok)
       (filter (\<lambda>p. positive (totalTime (snd p))) w)"

text \<open>Lines 78-105.\<close>

definition onAlarm :: "env \<Rightarrow> string \<Rightarrow> timing state \<Rightarrow> timing state" where
  "onAlarm e name st =
     (if name = sendDataAlarm
      then
        (let st1 = saveTimeForLastTab e st in
         if getOk e
         then
           (case token (store st1) of
              None \<Rightarrow> st1
            | Some tok \<Rightarrow>
               if tok \<noteq> []
               then
                 (let st2 = st1\<lparr>sent := sent st1 @ trackRequests tok (websiteTime (store st1))\<rparr>
                  in if setOk e then st2\<lparr>store := (store st1)\<lparr>websiteTime := []\<rparr>\<rparr> else st2)
               else st1)
         else st1)
      else st)"

text \<open>
  \<open>run\<close> is the serialised execution: the handler of an event has finished, awaits
  included, before the handler of the next event starts. Handlers that overlap are not
  runs; \<open>overlapped\<close> above is one such execution.
\<close>

fun step :: "env \<Rightarrow> event \<Rightarrow> timing state \<Rightarrow> timing state" where
  "step e (Activated tabId) st = handleTabChange e tabId st"
| "step e (Updated tabId ci t) st = onUpdated e tabId ci st"
| "step e (Removed tabId) st = handleTabRemoved e tabId st"
| "step e (FocusChanged windowId) st = st"
| "step e (Alarm name) st = onAlarm e name st"

fun run :: "(env \<times> event) list \<Rightarrow> timing state \<Rightarrow> timing state" where
  "run [] st = st"
| "run (x # xs) st = run xs (step (fst x) (snd x) st)"

definition init :: "timing state" where
  "init = \<lparr>slot = idle, store = emptyStorage, sent = [], committed = []\<rparr>"

section \<open>\<^verbatim>\<open>src/unnamed/part_001\<close>: the commit takes the tab identifier as an argument\<close>

text \<open>
  Lines 51-86 and 252-295. The first script reads the tab in a callback, the second in a
  promise; run to completion, both write the same thing.
\<close>

definition saveTimeForLastTab_p1 :: "env \<Rightarrow> int option \<Rightarrow> timing state \<Rightarrow> timing state" where
  "saveTimeForLastTab_p1 e tabId st =
     (if truthy_num tabId \<and> truthy_num (startTime (slot st))
      then
        (case tabId of
           None \<Rightarrow> st
         | Some i \<Rightarrow>
            (case startTime (slot st) of
               None \<Rightarrow> st
             | Some t0 \<Rightarrow>
                if duration (nowEnd e) t0 \<le> 0 then st
                else commit e i t0 (duration (nowEnd e) t0) st))
      else st)"

text \<open>Lines 43-49.\<close>

definition onRemoved_p1a :: "env \<Rightarrow> int \<Rightarrow> timing state \<Rightarrow> timing state" where
  "onRemoved_p1a e tabId st =
     (if lastTabId (slot st) = Some tabId
      then (saveTimeForLastTab_p1 e (Some tabId) st)\<lparr>slot := idle\<rparr>
      else st)"

text \<open>Lines 244-250: here the commit is attempted before the identifier is compared.\<close>

definition onRemoved_p1b :: "env \<Rightarrow> int \<Rightarrow> timing state \<Rightarrow> timing state" where
  "onRemoved_p1b e tabId st =
     (if lastTabId (slot (saveTimeForLastTab_p1 e (Some tabId) st)) = Some tabId
      then (saveTimeForLastTab_p1 e (Some tabId) st)\<lparr>slot := idle\<rparr>
      else saveTimeForLastTab_p1 e (Some tabId) st)"

section \<open>Login\<close>

text \<open>
  \<^verbatim>\<open>loginUser\<close>, \<^verbatim>\<open>src/unnamed/part_000\<close> lines 234-254. Reading a property of a
  \<^verbatim>\<open>null\<close> body throws, like a network error or an unparsable body, into the
  \<^verbatim>\<open>catch\<close>. The storage write is awaited inside the \<^verbatim>\<open>try\<close>.
\<close>

definition connectError_p0 :: string where
  "connectError_p0 = ''Could not connect to the server.''"

definition loginUser_p0 :: "env \<Rightarrow> string \<Rightarrow> string \<Rightarrow> 'a state \<Rightarrow> reply \<times> 'a state" where
  "loginUser_p0 e usr pwd st =
     (let st1 = st\<lparr>sent := sent st @ [LoginReq usr pwd]\<rparr> in
      case fetch e (LoginReq usr pwd) of
        NetworkError \<Rightarrow> (Error (Some connectError_p0), st1)
      | Response ok b \<Rightarrow>
         (case b of
            Unparsable \<Rightarrow> (Error (Some connectError_p0), st1)
          | JNull \<Rightarrow> (Error (Some connectError_p0), st1)
          | JObject t er \<Rightarrow>
             if ok
             then
               (if setOk e
                then (Success, st1\<lparr>store := (store st)\<lparr>token := t, username := Some usr\<rparr>\<rparr>)
                else (Error (Some connectError_p0), st1))
             else (Error er, st1)))"

text \<open>
  \<^verbatim>\<open>loginUser\<close>, \<^verbatim>\<open>src/extension/background.js\<close> lines 158-179: the storage write is
  not awaited, so its failure does not reach the \<^verbatim>\<open>catch\<close>.
\<close>

definition connectError :: string where
  "connectError = ''Could not connect to the server''"

definition loginUser :: "env \<Rightarrow> string \<Rightarrow> string \<Rightarrow> 'a state \<Rightarrow> reply \<times> 'a state" where
  "loginUser e usr pwd st =
     (let st1 = st\<lparr>sent := sent st @ [LoginReq usr pwd]\<rparr> in
      case fetch e (LoginReq usr pwd) of
        NetworkError \<Rightarrow> (Error (Some connectError), st1)
      | Response ok b \<Rightarrow>
         (case b of
            Unparsable \<Rightarrow> (Error (Some connectError), st1)
          | JNull \<Rightarrow> (Error (Some connectError), st1)
          | JObject t er \<Rightarrow>
             if ok
             then
               (if setOk e
                then (Success, st1\<lparr>store := (store st)\<lparr>token := t, username := Some usr\<rparr>\<rparr>)
                else (Success, st1))
             else (Error er, st1)))"

section \<open>Predicates and sample worlds used by the properties\<close>

text \<open>
  A slot is well formed when it is empty or has its identifier and its start time (and,
  in \<^verbatim>\<open>part_000\<close>, its URL) set together.
\<close>

definition wellformed_p0 :: "activeTabInfo \<Rightarrow> bool" where
  "wellformed_p0 a =
     (a = noTab \<or> (info_id a \<noteq> None \<and> info_url a \<noteq> None \<and> info_startTime a \<noteq> None))"

definition wellformed :: "timing \<Rightarrow> bool" where
  "wellformed a = ((lastTabId a = None) = (startTime a = None))"

text \<open>Two sites, a table of their host names, and a world where everything resolves.\<close>

definition tabA :: tab where
  "tabA = \<lparr>url = Some ''https://a.example/inbox'', title = Some ''Inbox'', active = True\<rparr>"

definition tabB :: tab where
  "tabB = \<lparr>url = Some ''https://b.example/'', title = Some ''News'', active = True\<rparr>"

definition tabSettings :: tab where
  "tabSettings = \<lparr>url = Some ''chrome://settings/'', title = Some ''Settings'', active = True\<rparr>"

definition hosts :: "string \<Rightarrow> string option" where
  "hosts u =
     (if u = ''https://a.example/inbox'' then Some ''a.example''
      else if u = ''https://b.example/'' then Some ''b.example''
      else if u = ''chrome://settings/'' then Some ''settings''
      else None)"

definition browser :: "int \<Rightarrow> tab option" where
  "browser i = (if i = 1 then Some tabA else if i = 2 then Some tabB
                else if i = 3 then Some tabSettings else None)"

definition world :: "int \<Rightarrow> (int \<Rightarrow> tab option) \<Rightarrow> (request \<Rightarrow> response) \<Rightarrow> env" where
  "world t tb f =
     \<lparr>nowEnd = t, nowStart = t, tabs = tb, hostname = hosts, activeTabIn = (\<lambda>w. None),
      fetch = f, saveGetOk = True, saveSetOk = True, getOk = True, setOk = True\<rparr>"

definition offline :: "request \<Rightarrow> response" where
  "offline r = NetworkError"

text \<open>
  A slot of \<^verbatim>\<open>part_000\<close> is settled when it is empty or passes the guard of the commit
  (line 24). A world is ordinary when its clock does not read 0 and it has no tab 0.
\<close>

definition settled :: "activeTabInfo \<Rightarrow> bool" where
  "settled a = (a = noTab \<or> truthy_num (info_id a) \<and> truthy_num (info_startTime a))"

definition ordinary :: "env \<Rightarrow> bool" where
  "ordinary e = (nowStart e \<noteq> 0 \<and> tabs e 0 = None)"


definition stamps :: "(string \<times> int \<times> int) list \<Rightarrow> int list" where
  "stamps log = concat (map (\<lambda>x. [fst (snd x), snd (snd x)]) log)"

definition credited :: "string \<Rightarrow> (string \<times> int \<times> int) list \<Rightarrow> int" where
  "credited h log =
     sum_list (map (\<lambda>x. duration (snd (snd x)) (fst (snd x))) (filter (\<lambda>x. fst x = h) log))"

definition total :: "string \<Rightarrow> ledger \<Rightarrow> number" where
  "total h w = (case map_of w h of None \<Rightarrow> Num 0 | Some x \<Rightarrow> totalTime x)"


definition balanced :: "'a state \<Rightarrow> bool" where
  "balanced st = (\<not> truthy_str (token (store st))
     \<and> (\<forall>h. h \<in> set objectPrototype
            \<or> total h (websiteTime (store st)) = Num (credited h (committed st))))"

text \<open>The slot never holds a browser-internal URL.\<close>

definition external :: "activeTabInfo \<Rightarrow> bool" where
  "external a = (case info_url a of None \<Rightarrow> True | Some v \<Rightarrow> \<not> internal v)"

text \<open>The same browser after tab 1 has changed its title.\<close>

definition browserLater :: "int \<Rightarrow> tab option" where
  "browserLater i = (if i = 1 then Some (tabA\<lparr>title := Some ''Sent''\<rparr>) else browser i)"

definition storageDown :: "env \<Rightarrow> env" where
  "storageDown e = e\<lparr>saveGetOk := False, saveSetOk := False\<rparr>"

text \<open>The state one second after start-up, when tab 1 has just been activated.\<close>

definition timingA_p0 :: "activeTabInfo state" where
  "timingA_p0 = run_p0 [(world 1000 browser offline, Activated 1)] init_p0"

definition timingA :: "timing state" where
  "timingA = run [(world 1000 browser offline, Activated 1)] init"

text \<open>A signed-in user with two sites in the ledger, and a backend that accepts only the first.\<close>

definition ledgerAB :: ledger where
  "ledgerAB = [(''a.example'', \<lparr>entryTitle = Some ''Inbox'', totalTime = Num 10\<rparr>),
               (''b.example'', \<lparr>entryTitle = Some ''News'', totalTime = Num 20\<rparr>)]"

definition backendA :: "request \<Rightarrow> response" where
  "backendA r =
     (case r of
        TrackReq u ttl n tok \<Rightarrow>
          if u = ''a.example'' then Response True (JObject None None)
          else Response False (JObject None (Some ''unavailable''))
      | LoginReq usr pwd \<Rightarrow> NetworkError)"

definition signedIn :: storage where
  "signedIn = \<lparr>websiteTime = ledgerAB, token = Some ''secret'', username = Some ''u''\<rparr>"

section \<open>Properties\<close>

subsection \<open>Evaluation of the sample states\<close>

lemma truthy_num_simps [simp]:
  "truthy_num None = False" "truthy_num (Some n) = (n \<noteq> 0)"
  by (simp_all add: truthy_num_def)

lemma truthy_str_simps [simp]:
  "truthy_str None = False" "truthy_str (Some s) = (s \<noteq> [])"
  by (simp_all add: truthy_str_def)

lemma plain_sites [simp]:
  "''a.example'' \<notin> set objectPrototype" "''b.example'' \<notin> set objectPrototype"
  by (simp_all add: objectPrototype_def)

lemma timingA_p0_eq:
  "timingA_p0 = \<lparr>slot = \<lparr>info_id = Some 1, info_url = Some ''https://a.example/inbox'',
       info_title = Some ''Inbox'', info_startTime = Some 1000\<rparr>, store = emptyStorage, sent = [],
       committed = []\<rparr>"
  by (simp add: timingA_p0_def init_p0_def processTabChange_p0_def TAB_ID_NONE_def
      saveTimeForLastTab_p0_def noTab_def world_def browser_def tabA_def
      internal_def startsWith_def Let_def)

lemma timingA_eq:
  "timingA = \<lparr>slot = \<lparr>lastTabId = Some 1, startTime = Some 1000\<rparr>, store = emptyStorage, sent = [],
       committed = []\<rparr>"
  by (simp add: timingA_def init_def handleTabChange_def idle_def world_def)

subsection \<open>What a commit leaves alone\<close>

lemma commit_p0_frame [simp]:
  "slot (commit_p0 e t0 d st) = slot st"
  "sent (commit_p0 e t0 d st) = sent st"
  "token (store (commit_p0 e t0 d st)) = token (store st)"
  by (simp_all add: commit_p0_def split: option.splits)

lemma commit_frame [simp]:
  "slot (commit e i t0 d st) = slot st"
  "sent (commit e i t0 d st) = sent st"
  "token (store (commit e i t0 d st)) = token (store st)"
  by (simp_all add: commit_def split: option.splits)

subsection \<open>The slot\<close>

lemma slot_save_p0:
  "slot (saveTimeForLastTab_p0 e st) = slot st \<or> slot (saveTimeForLastTab_p0 e st) = noTab"
  by (simp add: saveTimeForLastTab_p0_def split: option.splits)

lemma slot_sync_p0: "slot (sync_p0 e tok st) = slot st"
  by (simp add: sync_p0_def Let_def)

lemma wf_save_p0: "wellformed_p0 (slot st) \<Longrightarrow> wellformed_p0 (slot (saveTimeForLastTab_p0 e st))"
  using slot_save_p0 [of e st] by (auto simp: wellformed_p0_def)

lemma wf_process_p0: "wellformed_p0 (slot st) \<Longrightarrow> wellformed_p0 (slot (processTabChange_p0 e i st))"
  using wf_save_p0 [of st e]
  by (auto simp: processTabChange_p0_def Let_def wellformed_p0_def split: option.splits)

lemma wf_step_p0:
  assumes wf: "wellformed_p0 (slot st)"
  shows "wellformed_p0 (slot (step_p0 e ev st))"
proof (cases ev)
  case (Alarm n)
  then show ?thesis
    using wf wf_save_p0 [OF wf, of e]
    by (simp add: onAlarm_p0_def Let_def slot_sync_p0 split: option.splits)
qed (use wf in \<open>auto simp: onUpdated_p0_def onRemoved_p0_def onFocusChanged_p0_def
         intro: wf_process_p0 wf_save_p0 split: option.splits\<close>)

lemma wf_run_p0: "wellformed_p0 (slot st) \<Longrightarrow> wellformed_p0 (slot (run_p0 evs st))"
  by (induction evs arbitrary: st) (auto intro: wf_step_p0)

lemma slot_save: "slot (saveTimeForLastTab e st) = slot st"
  by (simp add: saveTimeForLastTab_def split: option.splits)

lemma wf_step: "wellformed (slot st) \<Longrightarrow> wellformed (slot (step e ev st))"
  by (cases ev)
     (auto simp: handleTabChange_def onUpdated_def handleTabRemoved_def onAlarm_def Let_def
         slot_save wellformed_def idle_def split: option.splits)

lemma wf_run: "wellformed (slot st) \<Longrightarrow> wellformed (slot (run evs st))"
  by (induction evs arbitrary: st) (auto intro: wf_step)

text \<open>
  C7. The state holds one slot. After any sequence of events from the initial state, in
  \<^verbatim>\<open>part_000\<close> and in \<^verbatim>\<open>background.js\<close> alike, that slot is either empty or has its
  context identifier and its start time both set.
\<close>

theorem slot_wellformed:
  "wellformed_p0 (slot (run_p0 evs init_p0)) \<and> wellformed (slot (run evs' init))"
  using wf_run_p0 [of init_p0 evs] wf_run [of init evs']
  by (simp add: init_p0_def init_def wellformed_p0_def wellformed_def idle_def)

theorem slot_wellformed_witness:
  "wellformed_p0 (slot (run_p0 [(world 1000 browser offline, Activated 1),
                                (world 6000 browser offline, Removed 1)] init_p0))
   \<and> wellformed (slot (run [(world 1000 browser offline, Activated 1),
                            (world 6000 browser offline, Removed 2)] init))"
  using slot_wellformed
    [of "[(world 1000 browser offline, Activated 1), (world 6000 browser offline, Removed 1)]"
        "[(world 1000 browser offline, Activated 1), (world 6000 browser offline, Removed 2)]"]
  by simp

lemma token_save_p0: "token (store (saveTimeForLastTab_p0 e st)) = token (store st)"
  by (simp add: saveTimeForLastTab_p0_def commit_p0_def split: option.splits)

lemma sent_save_p0: "sent (saveTimeForLastTab_p0 e st) = sent st"
  by (simp add: saveTimeForLastTab_p0_def split: option.splits)

lemma token_save: "token (store (saveTimeForLastTab e st)) = token (store st)"
  by (simp add: saveTimeForLastTab_def commit_def split: option.splits)

lemma sent_save: "sent (saveTimeForLastTab e st) = sent st"
  by (simp add: saveTimeForLastTab_def split: option.splits)

text \<open>
  In \<^verbatim>\<open>part_000\<close> a commit attempt on a slot that passes the guard of line 24 always
  ends with the empty slot, whatever the storage calls and the URL parser do; a second
  commit attempt then finds nothing to commit.
\<close>

lemma save_p0_clears_slot:
  assumes "truthy_num (info_id (slot st))" and "truthy_num (info_startTime (slot st))"
  shows "slot (saveTimeForLastTab_p0 e st) = noTab"
  using assms by (cases "info_startTime (slot st)") (simp_all add: saveTimeForLastTab_p0_def)

lemma save_p0_idempotent:
  "saveTimeForLastTab_p0 e' (saveTimeForLastTab_p0 e st) = saveTimeForLastTab_p0 e st"
proof (cases "truthy_num (info_id (slot st)) \<and> truthy_num (info_startTime (slot st))")
  case True
  then have "slot (saveTimeForLastTab_p0 e st) = noTab"
    by (simp add: save_p0_clears_slot)
  then show ?thesis
    by (simp add: saveTimeForLastTab_p0_def [of e' "saveTimeForLastTab_p0 e st"] noTab_def)
next
  case False
  then have "saveTimeForLastTab_p0 e st = st"
    by (auto simp: saveTimeForLastTab_p0_def)
  moreover from False have "saveTimeForLastTab_p0 e' st = st"
    by (auto simp: saveTimeForLastTab_p0_def)
  ultimately show ?thesis by simp
qed

text \<open>
  C5. In \<^verbatim>\<open>background.js\<close> the commit attempted by the alarm listener leaves the slot as
  it was: tab 1, timed since 1000 ms, is still timed since 1000 ms after the tick at
  301000 ms, whether the storage write fails, the tab no longer resolves, or the commit
  succeeds. On the same input \<^verbatim>\<open>part_000\<close> ends with the empty slot.
\<close>

theorem tick_leaves_slot_running:
  "slot (onAlarm (storageDown (world 301000 browser offline)) sendDataAlarm timingA)
     = \<lparr>lastTabId = Some 1, startTime = Some 1000\<rparr>
   \<and> slot (onAlarm (world 301000 (\<lambda>i. None) offline) sendDataAlarm timingA)
     = \<lparr>lastTabId = Some 1, startTime = Some 1000\<rparr>
   \<and> slot (onAlarm (world 301000 browser offline) sendDataAlarm timingA)
     = \<lparr>lastTabId = Some 1, startTime = Some 1000\<rparr>
   \<and> slot (onAlarm_p0 (storageDown (world 301000 browser offline)) sendDataAlarm timingA_p0) = noTab"
  by (simp add: timingA_eq timingA_p0_eq onAlarm_def onAlarm_p0_def Let_def slot_save
      save_p0_clears_slot token_save token_save_p0 emptyStorage_def sendDataAlarm_def)

text \<open>
  The consequence in \<^verbatim>\<open>background.js\<close>: tab 1 is activated at 1000 ms and two alarms fire,
  at 301000 ms and at 601000 ms (nobody is signed in, so nothing is sent). The tab has
  been timed for 600 seconds; the ledger holds 900, because the second commit starts from
  1000 ms again and counts the first 300 seconds twice. \<^verbatim>\<open>part_000\<close> holds 300 on the same
  events.
\<close>

lemma tick_counts_interval_twice:
  "websiteTime (store (run [(world 1000 browser offline, Activated 1),
                            (world 301000 browser offline, Alarm sendDataAlarm),
                            (world 601000 browser offline, Alarm sendDataAlarm)] init))
     = [(''a.example'', \<lparr>entryTitle = Some ''Inbox'', totalTime = Num 900\<rparr>)]
   \<and> committed (run [(world 1000 browser offline, Activated 1),
                            (world 301000 browser offline, Alarm sendDataAlarm),
                            (world 601000 browser offline, Alarm sendDataAlarm)] init)
     = [(''a.example'', 1000, 301000), (''a.example'', 1000, 601000)]
   \<and> duration 601000 1000 = 600
   \<and> websiteTime (store (run_p0 [(world 1000 browser offline, Activated 1),
                            (world 301000 browser offline, Alarm sendDataAlarm),
                            (world 601000 browser offline, Alarm sendDataAlarm)] init_p0))
     = [(''a.example'', \<lparr>entryTitle = Some ''Inbox'', totalTime = Num 300\<rparr>)]"
  by (simp add: init_def init_p0_def emptyStorage_def idle_def noTab_def
      handleTabChange_def processTabChange_p0_def TAB_ID_NONE_def
      onAlarm_def onAlarm_p0_def Let_def
      saveTimeForLastTab_def saveTimeForLastTab_p0_def commit_def commit_p0_def
      accumulate_def accumulate_p0_def duration_def
      world_def browser_def tabA_def hosts_def internal_def startsWith_def)

subsection \<open>The tick\<close>

text \<open>
  C3 (as stated, refuted). Nobody is signed in and the ledger is empty; tab 1 has been
  timed since 1000 ms. The tick at 301000 ms writes 300 seconds into the ledger, in
  \<^verbatim>\<open>part_000\<close> and in \<^verbatim>\<open>background.js\<close>: the forced commit comes before the token is read.
\<close>

theorem tick_without_token_counterexample:
  "token (store timingA_p0) = None
   \<and> websiteTime (store timingA_p0) = []
   \<and> websiteTime (store (onAlarm_p0 (world 301000 browser offline) sendDataAlarm timingA_p0))
       = [(''a.example'', \<lparr>entryTitle = Some ''Inbox'', totalTime = Num 300\<rparr>)]
   \<and> token (store timingA) = None
   \<and> websiteTime (store timingA) = []
   \<and> websiteTime (store (onAlarm (world 301000 browser offline) sendDataAlarm timingA))
       = [(''a.example'', \<lparr>entryTitle = Some ''Inbox'', totalTime = Num 300\<rparr>)]"
  by (simp add: timingA_p0_eq timingA_eq emptyStorage_def onAlarm_p0_def onAlarm_def Let_def
      saveTimeForLastTab_p0_def saveTimeForLastTab_def commit_p0_def commit_def
      accumulate_p0_def accumulate_def duration_def world_def browser_def tabA_def hosts_def
      internal_def startsWith_def sendDataAlarm_def)

text \<open>
  C3 (amended). When the stored token is absent or empty, a tick sends no request, and
  the storage area after the tick is the storage area after the forced commit of the open
  slot; with an empty slot it is the storage area before the tick.
\<close>

theorem tick_without_token:
  assumes "\<not> truthy_str (token (store st0))" and "\<not> truthy_str (token (store st))"
  shows "sent (onAlarm_p0 e sendDataAlarm st0) = sent st0
         \<and> store (onAlarm_p0 e sendDataAlarm st0) = store (saveTimeForLastTab_p0 e st0)
         \<and> (\<not> truthy_num (info_id (slot st0)) \<longrightarrow>
              store (onAlarm_p0 e sendDataAlarm st0) = store st0)
         \<and> sent (onAlarm e sendDataAlarm st) = sent st
         \<and> store (onAlarm e sendDataAlarm st) = store (saveTimeForLastTab e st)
         \<and> (\<not> truthy_num (lastTabId (slot st)) \<longrightarrow>
              store (onAlarm e sendDataAlarm st) = store st)"
proof -
  have t0: "\<not> truthy_str (token (store (saveTimeForLastTab_p0 e st0)))"
    using assms(1) by (simp add: token_save_p0)
  have t: "\<not> truthy_str (token (store (saveTimeForLastTab e st)))"
    using assms(2) by (simp add: token_save)
  have a0: "onAlarm_p0 e sendDataAlarm st0 = saveTimeForLastTab_p0 e st0"
    using t0 by (cases "token (store (saveTimeForLastTab_p0 e st0))") (simp_all add: onAlarm_p0_def Let_def)
  have a: "onAlarm e sendDataAlarm st = saveTimeForLastTab e st"
    using t by (cases "token (store (saveTimeForLastTab e st))") (simp_all add: onAlarm_def Let_def)
  have e0: "\<not> truthy_num (info_id (slot st0)) \<Longrightarrow> saveTimeForLastTab_p0 e st0 = st0"
    by (simp add: saveTimeForLastTab_p0_def)
  have e1: "\<not> truthy_num (lastTabId (slot st)) \<Longrightarrow> saveTimeForLastTab e st = st"
    by (simp add: saveTimeForLastTab_def)
  show ?thesis
    using e0 e1 by (auto simp add: a0 a sent_save_p0 sent_save)
qed

theorem tick_without_token_witness:
  "sent (onAlarm_p0 (world 301000 browser offline) sendDataAlarm timingA_p0) = []
   \<and> store (onAlarm_p0 (world 301000 browser offline) sendDataAlarm init_p0) = emptyStorage
   \<and> sent (onAlarm (world 301000 browser offline) sendDataAlarm timingA) = []
   \<and> store (onAlarm (world 301000 browser offline) sendDataAlarm init) = emptyStorage"
  using tick_without_token [of timingA_p0 timingA "world 301000 browser offline"]
        tick_without_token [of init_p0 init "world 301000 browser offline"]
  by (simp add: timingA_p0_eq timingA_eq init_p0_def init_def emptyStorage_def noTab_def idle_def
      saveTimeForLastTab_p0_def saveTimeForLastTab_def)

text \<open>
  In \<^verbatim>\<open>part_000\<close>, with a token, working storage and a ledger whose keys are distinct
  (as the keys of an object are), the ledger after a tick is the ledger after the forced
  commit without the entries whose dispatch succeeded (\<open>tick_p0_partial_sync\<close> below).
\<close>

lemma fold_delete_filter:
  "fold AList.delete ks w = filter (\<lambda>p. fst p \<notin> set ks) w"
proof (induction ks arbitrary: w)
  case Nil
  then show ?case by simp
next
  case (Cons k ks)
  have "filter (\<lambda>p. fst p \<notin> set ks) (AList.delete k w) = filter (\<lambda>p. fst p \<notin> set (k # ks)) w"
    by (induction w) (auto simp: AList.delete_eq)
  then show ?case using Cons by simp
qed

lemma synced_keys:
  assumes "distinct (map fst w)" and "p \<in> set w"
  shows "fst p \<in> set (successfullySyncedUrls e tok w) \<longleftrightarrow> sendTimeDataToBackend_p0 e tok p"
proof
  assume "fst p \<in> set (successfullySyncedUrls e tok w)"
  then obtain q where q: "q \<in> set w" "sendTimeDataToBackend_p0 e tok q" "fst q = fst p"
    by (auto simp: successfullySyncedUrls_def)
  from assms q(1,3) have "q = p"
    by (metis eq_key_imp_eq_value prod.collapse)
  with q(2) show "sendTimeDataToBackend_p0 e tok p" by simp
next
  assume "sendTimeDataToBackend_p0 e tok p"
  with assms(2) show "fst p \<in> set (successfullySyncedUrls e tok w)"
    by (auto simp: successfullySyncedUrls_def)
qed

lemma sync_p0_ledger:
  assumes "distinct (map fst (websiteTime (store st)))" and "setOk e"
  shows "websiteTime (store (sync_p0 e tok st))
           = filter (\<lambda>p. \<not> sendTimeDataToBackend_p0 e tok p) (websiteTime (store st))"
proof -
  let ?w = "websiteTime (store st)"
  have f: "filter (\<lambda>p. fst p \<notin> set (successfullySyncedUrls e tok ?w)) ?w
             = filter (\<lambda>p. \<not> sendTimeDataToBackend_p0 e tok p) ?w"
    using synced_keys [OF assms(1)] by (intro filter_cong) auto
  show ?thesis
  proof (cases "successfullySyncedUrls e tok ?w = []")
    case True
    with f show ?thesis by (simp add: sync_p0_def Let_def)
  next
    case False
    with f assms(2) show ?thesis by (simp add: sync_p0_def Let_def fold_delete_filter)
  qed
qed

lemma tick_p0_partial_sync:
  assumes "token (store st) = Some tok" and "tok \<noteq> []" and "getOk e" and "setOk e"
    and "distinct (map fst (websiteTime (store (saveTimeForLastTab_p0 e st))))"
  shows "websiteTime (store (onAlarm_p0 e sendDataAlarm st))
           = filter (\<lambda>p. \<not> sendTimeDataToBackend_p0 e tok p)
               (websiteTime (store (saveTimeForLastTab_p0 e st)))"
proof (cases "websiteTime (store (saveTimeForLastTab_p0 e st)) = []")
  case True
  then show ?thesis using assms by (simp add: onAlarm_p0_def Let_def token_save_p0)
next
  case False
  then show ?thesis
    using assms sync_p0_ledger [OF assms(5) assms(4), of tok]
    by (simp add: onAlarm_p0_def Let_def token_save_p0)
qed

text \<open>
  C1. In \<^verbatim>\<open>background.js\<close>, a signed-in user has 10 seconds for \<open>a.example\<close> and 20 for
  \<open>b.example\<close>; the backend accepts the first request and answers the second with an error.
  After the tick the ledger is empty: the 20 seconds of \<open>b.example\<close> are gone although
  their dispatch failed. On the same input \<^verbatim>\<open>part_000\<close> keeps exactly that entry.
\<close>

theorem tick_drops_failed_entry:
  "websiteTime (store (onAlarm (world 300000 browser backendA) sendDataAlarm
       \<lparr>slot = idle, store = signedIn, sent = [], committed = []\<rparr>)) = []
   \<and> sent (onAlarm (world 300000 browser backendA) sendDataAlarm
       \<lparr>slot = idle, store = signedIn, sent = [], committed = []\<rparr>)
      = [TrackReq ''a.example'' (Some ''Inbox'') (Num 10) ''secret'',
         TrackReq ''b.example'' (Some ''News'') (Num 20) ''secret'']
   \<and> backendA (TrackReq ''b.example'' (Some ''News'') (Num 20) ''secret'')
      = Response False (JObject None (Some ''unavailable''))
   \<and> websiteTime (store (onAlarm_p0 (world 300000 browser backendA) sendDataAlarm
       \<lparr>slot = noTab, store = signedIn, sent = [], committed = []\<rparr>))
      = [(''b.example'', \<lparr>entryTitle = Some ''News'', totalTime = Num 20\<rparr>)]"
  by (simp add: onAlarm_def onAlarm_p0_def sync_p0_def successfullySyncedUrls_def
      sendTimeDataToBackend_p0_def trackRequest_p0_def trackRequests_def Let_def
      saveTimeForLastTab_def saveTimeForLastTab_p0_def idle_def noTab_def signedIn_def
      ledgerAB_def backendA_def world_def sendDataAlarm_def)

subsection \<open>Removal of a tab\<close>

lemma save_p1_unresolved:
  "tabs e i = None \<Longrightarrow> saveTimeForLastTab_p1 e (Some i) st = st"
  by (simp add: saveTimeForLastTab_p1_def commit_def split: option.splits)

lemma slot_save_p1 [simp]: "slot (saveTimeForLastTab_p1 e i st) = slot st"
  by (simp add: saveTimeForLastTab_p1_def split: option.splits)

text \<open>
  Where the listener compares identifiers before it commits (\<^verbatim>\<open>part_000\<close>,
  \<^verbatim>\<open>background.js\<close>, the first script of \<^verbatim>\<open>part_001\<close>), the removal of a tab other than
  the one in the slot leaves the whole state as it was, and the removal of the one in the
  slot ends with the empty slot and the storage area the commit leaves (in \<^verbatim>\<open>part_000\<close>:
  for a slot that passes the guard of the commit). The second script of \<^verbatim>\<open>part_001\<close>
  commits first: it leaves the state as it was only when the removed tab no longer
  resolves.
\<close>

lemma removed_guard:
  "(info_id (slot st0) \<noteq> Some tabId \<longrightarrow> onRemoved_p0 e tabId st0 = st0)
   \<and> (info_id (slot st0) = Some tabId \<longrightarrow>
        store (onRemoved_p0 e tabId st0) = store (saveTimeForLastTab_p0 e st0)
        \<and> (truthy_num (Some tabId) \<and> truthy_num (info_startTime (slot st0)) \<longrightarrow>
             slot (onRemoved_p0 e tabId st0) = noTab))
   \<and> (lastTabId (slot st) \<noteq> Some tabId \<longrightarrow>
        handleTabRemoved e tabId st = st \<and> onRemoved_p1a e tabId st = st
        \<and> (tabs e tabId = None \<longrightarrow> onRemoved_p1b e tabId st = st))
   \<and> (lastTabId (slot st) = Some tabId \<longrightarrow>
        slot (handleTabRemoved e tabId st) = idle
        \<and> store (handleTabRemoved e tabId st) = store (saveTimeForLastTab e st)
        \<and> slot (onRemoved_p1a e tabId st) = idle
        \<and> store (onRemoved_p1a e tabId st) = store (saveTimeForLastTab_p1 e (Some tabId) st)
        \<and> slot (onRemoved_p1b e tabId st) = idle
        \<and> store (onRemoved_p1b e tabId st) = store (saveTimeForLastTab_p1 e (Some tabId) st))"
  by (auto simp: onRemoved_p0_def handleTabRemoved_def onRemoved_p1a_def onRemoved_p1b_def
      save_p1_unresolved saveTimeForLastTab_p0_def split: option.splits)

text \<open>
  C6. In the second script of \<^verbatim>\<open>part_001\<close> (lines 244-250), tab 1 has been timed since
  1000 ms when tab 2, which shows \<open>b.example\<close>, is removed at 6000 ms and its identifier
  still resolves. The listener attempts the commit before it compares identifiers: the
  five seconds of tab 1 are written under \<open>b.example\<close>, the site of the removed tab. On the
  same input the listeners of the first script of \<^verbatim>\<open>part_001\<close>, of \<^verbatim>\<open>background.js\<close> and
  of \<^verbatim>\<open>part_000\<close> leave the state as it was.
\<close>

theorem removal_credits_other_tab:
  "lastTabId (slot timingA) = Some 1
   \<and> websiteTime (store timingA) = []
   \<and> websiteTime (store (onRemoved_p1b (world 6000 browser offline) 2 timingA))
       = [(''b.example'', \<lparr>entryTitle = Some ''News'', totalTime = Num 5\<rparr>)]
   \<and> slot (onRemoved_p1b (world 6000 browser offline) 2 timingA) = slot timingA
   \<and> onRemoved_p1a (world 6000 browser offline) 2 timingA = timingA
   \<and> handleTabRemoved (world 6000 browser offline) 2 timingA = timingA
   \<and> onRemoved_p0 (world 6000 browser offline) 2 timingA_p0 = timingA_p0"
  by (simp add: timingA_eq timingA_p0_eq emptyStorage_def onRemoved_p1b_def onRemoved_p1a_def
      handleTabRemoved_def onRemoved_p0_def saveTimeForLastTab_p1_def commit_def
      accumulate_def duration_def world_def browser_def tabB_def hosts_def
      internal_def startsWith_def)

subsection \<open>What a commit writes\<close>

lemma add_zero [simp]: "add (Num 0) (Num d) = Num d"
  by simp

lemma map_of_map_entry_upd:
  "map_of (AList.map_entry k f xs) = (map_of xs)(k := map_option f (map_of xs k))"
  by (induction xs) auto

lemma map_of_accumulate:
  assumes "h \<notin> set objectPrototype"
  shows "map_of (accumulate h ttl d w)
     = (map_of w)(h \<mapsto> \<lparr>entryTitle = ttl, totalTime = add (total h w) (Num d)\<rparr>)"
proof (cases "map_of w h")
  case None
  moreover from assms have "h \<noteq> ''__proto__''"
    by (auto simp: objectPrototype_def)
  ultimately show ?thesis
    using assms by (simp add: accumulate_def total_def update_conv')
next
  case (Some x)
  then show ?thesis by (simp add: accumulate_def total_def update_conv')
qed

lemma map_of_accumulate_p0:
  assumes "h \<notin> set objectPrototype"
  shows "map_of (accumulate_p0 h ttl d w)
     = (map_of w)(h \<mapsto> \<lparr>entryTitle = (case map_of w h of None \<Rightarrow> ttl | Some x \<Rightarrow> entryTitle x),
          totalTime = add (total h w) (Num d)\<rparr>)"
  using assms
  by (cases "map_of w h")
     (auto simp: accumulate_p0_def total_def map_of_map_entry_upd update_conv')

text \<open>Whatever the key, the entries under other keys stay, and a changed entry has the new title.\<close>

lemma accumulate_changes:
  "map_of (accumulate h ttl d w) k \<noteq> map_of w k
   \<Longrightarrow> k = h \<and> map_option entryTitle (map_of (accumulate h ttl d w) k) = Some ttl"
  by (cases "map_of w h") (auto simp: accumulate_def update_conv' split: if_splits)

lemma accumulate_p0_changes:
  "map_of (accumulate_p0 h ttl d w) k \<noteq> map_of w k \<Longrightarrow> k = h"
  by (cases "map_of w h")
     (auto simp: accumulate_p0_def map_of_map_entry_upd update_conv' split: if_splits)

text \<open>
  C9 (as stated, refuted). In \<^verbatim>\<open>part_000\<close>, tab 1 is timed for 5 seconds while its title
  is ``Inbox'' and, after its title has become ``Sent'', for 7 seconds more. The entry
  holds 12 seconds under the title ``Inbox'': the title of an entry that exists is not
  overwritten. And for the site key \<open>constructor\<close>, a name of \<^verbatim>\<open>Object.prototype\<close>, a
  commit of 5 seconds into the empty ledger creates no entry in \<^verbatim>\<open>part_000\<close> and an
  entry whose total is \<^verbatim>\<open>NaN\<close> in \<^verbatim>\<open>background.js\<close>.
\<close>

theorem title_kept_counterexample:
  "websiteTime (store (run_p0 [(world 1000 browser offline, Activated 1),
                               (world 6000 browser offline, FocusChanged WINDOW_ID_NONE),
                               (world 7000 browserLater offline, Activated 1),
                               (world 14000 browserLater offline, FocusChanged WINDOW_ID_NONE)] init_p0))
     = [(''a.example'', \<lparr>entryTitle = Some ''Inbox'', totalTime = Num 12\<rparr>)]
   \<and> map_option title (browserLater 1) = Some (Some ''Sent'')
   \<and> accumulate_p0 ''constructor'' (Some ''Intranet'') 5 [] = []
   \<and> accumulate ''constructor'' (Some ''Intranet'') 5 []
       = [(''constructor'', \<lparr>entryTitle = Some ''Intranet'', totalTime = NaN\<rparr>)]"
  by (simp add: init_p0_def emptyStorage_def noTab_def
      processTabChange_p0_def onFocusChanged_p0_def TAB_ID_NONE_def WINDOW_ID_NONE_def Let_def
      saveTimeForLastTab_p0_def commit_p0_def accumulate_p0_def accumulate_def duration_def
      world_def browser_def browserLater_def tabA_def hosts_def internal_def startsWith_def
      objectPrototype_def)

text \<open>
  C9 (amended). For a site key that is not a name of \<^verbatim>\<open>Object.prototype\<close>, committing
  \<open>d\<close> seconds changes only that key's entry. The new total is \<open>d\<close> for an absent entry
  and the old total plus \<open>d\<close> otherwise, in every revision. In \<^verbatim>\<open>background.js\<close> (and
  \<^verbatim>\<open>part_001\<close>, which has the same lines) the title becomes the title observed at this
  commit; in \<^verbatim>\<open>part_000\<close> the title is the observed one only when the entry is created,
  and an existing entry keeps its title.
\<close>

theorem accumulation:
  "h \<notin> set objectPrototype \<longrightarrow>
     map_of (accumulate h ttl d w)
       = (map_of w)(h \<mapsto> \<lparr>entryTitle = ttl, totalTime = add (total h w) (Num d)\<rparr>)
     \<and> map_of (accumulate_p0 h ttl d w)
       = (map_of w)(h \<mapsto> \<lparr>entryTitle = (case map_of w h of None \<Rightarrow> ttl | Some x \<Rightarrow> entryTitle x),
            totalTime = add (total h w) (Num d)\<rparr>)
     \<and> (map_of w h = None \<longrightarrow> add (total h w) (Num d) = Num d)
     \<and> (\<forall>x n. map_of w h = Some x \<and> totalTime x = Num n \<longrightarrow> add (total h w) (Num d) = Num (n + d))"
  by (auto simp: map_of_accumulate map_of_accumulate_p0 total_def)

theorem accumulation_witness:
  "map_of (accumulate ''a.example'' (Some ''Sent'') 7 (accumulate ''a.example'' (Some ''Inbox'') 5 []))
      ''a.example'' = Some \<lparr>entryTitle = Some ''Sent'', totalTime = Num 12\<rparr>
   \<and> map_of (accumulate_p0 ''a.example'' (Some ''Sent'') 7 (accumulate_p0 ''a.example'' (Some ''Inbox'') 5 []))
      ''a.example'' = Some \<lparr>entryTitle = Some ''Inbox'', totalTime = Num 12\<rparr>"
  using accumulation [of "''a.example''" "Some ''Sent''" 7 "accumulate ''a.example'' (Some ''Inbox'') 5 []"]
        accumulation [of "''a.example''" "Some ''Sent''" 7 "accumulate_p0 ''a.example'' (Some ''Inbox'') 5 []"]
        accumulation [of "''a.example''" "Some ''Inbox''" 5 "[]"]
  by (simp add: total_def)

text \<open>
  C4 (as stated, refuted). In \<^verbatim>\<open>part_000\<close>, tab 1 has been timed since 1000 ms and is
  closed at 6000 ms, so that its identifier no longer resolves. The removal handler
  commits 5 seconds under the host and title cached when the tab was activated.
\<close>

theorem cached_commit_counterexample:
  "tabs (world 6000 (\<lambda>i. None) offline) 1 = None
   \<and> websiteTime (store timingA_p0) = []
   \<and> websiteTime (store (onRemoved_p0 (world 6000 (\<lambda>i. None) offline) 1 timingA_p0))
       = [(''a.example'', \<lparr>entryTitle = Some ''Inbox'', totalTime = Num 5\<rparr>)]"
  by (simp add: timingA_p0_eq emptyStorage_def onRemoved_p0_def saveTimeForLastTab_p0_def
      commit_p0_def accumulate_p0_def duration_def world_def hosts_def)

text \<open>
  C4 (amended). In \<^verbatim>\<open>background.js\<close> and in \<^verbatim>\<open>part_001\<close> a commit looks the tab up by its
  identifier. When the identifier does not resolve the state is left as it was. When it
  resolves to a page that is not internal, the only entry of the ledger that can change is
  the one keyed by the host of the tab's present URL, and a changed entry carries the
  tab's present title; if that host is not a name of \<^verbatim>\<open>Object.prototype\<close>, the entry is
  written with that title and the old total plus the elapsed seconds. In \<^verbatim>\<open>part_000\<close> the
  commit never consults the tab table: the only entry that can change is the one keyed by
  the host of the URL cached in the slot, whether or not the tab still exists, and if
  that host is not a name of \<^verbatim>\<open>Object.prototype\<close> the entry is written with the cached
  title when it is new, its own title otherwise, and the old total plus the elapsed
  seconds.
\<close>

theorem commit_resolution:
  "(lastTabId (slot st) = Some i \<and> tabs e i = None \<longrightarrow>
      saveTimeForLastTab e st = st \<and> saveTimeForLastTab_p1 e (Some i) st = st)
   \<and> (lastTabId (slot st) = Some i \<and> i \<noteq> 0 \<and> startTime (slot st) = Some t0 \<and> t0 \<noteq> 0
        \<and> 0 < duration (nowEnd e) t0
        \<and> tabs e i = Some t \<and> url t = Some u \<and> u \<noteq> [] \<and> \<not> internal u \<and> hostname e u = Some h
        \<and> saveGetOk e \<and> saveSetOk e \<longrightarrow>
      (\<forall>k. map_of (websiteTime (store (saveTimeForLastTab e st))) k
              \<noteq> map_of (websiteTime (store st)) k
           \<longrightarrow> k = h \<and> map_option entryTitle
                 (map_of (websiteTime (store (saveTimeForLastTab e st))) k) = Some (title t))
      \<and> (h \<notin> set objectPrototype \<longrightarrow>
           map_of (websiteTime (store (saveTimeForLastTab e st)))
             = (map_of (websiteTime (store st)))(h \<mapsto> \<lparr>entryTitle = title t,
                  totalTime = add (total h (websiteTime (store st)))
                                  (Num (duration (nowEnd e) t0))\<rparr>))
      \<and> saveTimeForLastTab_p1 e (Some i) st = saveTimeForLastTab e st)
   \<and> saveTimeForLastTab_p0 (e\<lparr>tabs := tb\<rparr>) st0 = saveTimeForLastTab_p0 e st0
   \<and> (truthy_num (info_id (slot st0)) \<and> info_startTime (slot st0) = Some t0 \<and> t0 \<noteq> 0
        \<and> 0 < duration (nowEnd e) t0
        \<and> info_url (slot st0) = Some u \<and> hostname e u = Some h
        \<and> saveGetOk e \<and> saveSetOk e \<longrightarrow>
      (\<forall>k. map_of (websiteTime (store (saveTimeForLastTab_p0 e st0))) k
              \<noteq> map_of (websiteTime (store st0)) k \<longrightarrow> k = h)
      \<and> (h \<notin> set objectPrototype \<longrightarrow>
           map_of (websiteTime (store (saveTimeForLastTab_p0 e st0)))
             = (map_of (websiteTime (store st0)))(h \<mapsto>
                 \<lparr>entryTitle = (case map_of (websiteTime (store st0)) h of
                                  None \<Rightarrow> info_title (slot st0) | Some x \<Rightarrow> entryTitle x),
                  totalTime = add (total h (websiteTime (store st0)))
                                  (Num (duration (nowEnd e) t0))\<rparr>)))"
proof (intro conjI impI allI)
  assume "lastTabId (slot st) = Some i \<and> tabs e i = None"
  then show "saveTimeForLastTab e st = st"
    by (simp add: saveTimeForLastTab_def commit_def split: option.splits)
next
  assume "lastTabId (slot st) = Some i \<and> tabs e i = None"
  then show "saveTimeForLastTab_p1 e (Some i) st = st"
    by (simp add: save_p1_unresolved)
next
  fix k
  assume a: "lastTabId (slot st) = Some i \<and> i \<noteq> 0 \<and> startTime (slot st) = Some t0 \<and> t0 \<noteq> 0
        \<and> 0 < duration (nowEnd e) t0
        \<and> tabs e i = Some t \<and> url t = Some u \<and> u \<noteq> [] \<and> \<not> internal u \<and> hostname e u = Some h
        \<and> saveGetOk e \<and> saveSetOk e"
    and c: "map_of (websiteTime (store (saveTimeForLastTab e st))) k \<noteq> map_of (websiteTime (store st)) k"
  from a have w: "websiteTime (store (saveTimeForLastTab e st))
      = accumulate h (title t) (duration (nowEnd e) t0) (websiteTime (store st))"
    by (simp add: saveTimeForLastTab_def commit_def)
  from c have "map_of (accumulate h (title t) (duration (nowEnd e) t0) (websiteTime (store st))) k
      \<noteq> map_of (websiteTime (store st)) k"
    unfolding w .
  note ch = accumulate_changes [OF this]
  from ch show "k = h" by (rule conjunct1)
  from ch show "map_option entryTitle (map_of (websiteTime (store (saveTimeForLastTab e st))) k) = Some (title t)"
    unfolding w by (rule conjunct2)
next
  assume a: "lastTabId (slot st) = Some i \<and> i \<noteq> 0 \<and> startTime (slot st) = Some t0 \<and> t0 \<noteq> 0
        \<and> 0 < duration (nowEnd e) t0
        \<and> tabs e i = Some t \<and> url t = Some u \<and> u \<noteq> [] \<and> \<not> internal u \<and> hostname e u = Some h
        \<and> saveGetOk e \<and> saveSetOk e"
    and p: "h \<notin> set objectPrototype"
  then show "map_of (websiteTime (store (saveTimeForLastTab e st)))
             = (map_of (websiteTime (store st)))(h \<mapsto> \<lparr>entryTitle = title t,
                  totalTime = add (total h (websiteTime (store st)))
                                  (Num (duration (nowEnd e) t0))\<rparr>)"
    by (simp add: saveTimeForLastTab_def commit_def map_of_accumulate)
next
  assume "lastTabId (slot st) = Some i \<and> i \<noteq> 0 \<and> startTime (slot st) = Some t0 \<and> t0 \<noteq> 0
        \<and> 0 < duration (nowEnd e) t0
        \<and> tabs e i = Some t \<and> url t = Some u \<and> u \<noteq> [] \<and> \<not> internal u \<and> hostname e u = Some h
        \<and> saveGetOk e \<and> saveSetOk e"
  then show "saveTimeForLastTab_p1 e (Some i) st = saveTimeForLastTab e st"
    by (simp add: saveTimeForLastTab_def saveTimeForLastTab_p1_def)
next
  have "commit_p0 (e\<lparr>tabs := tb\<rparr>) t1 d s = commit_p0 e t1 d s" for t1 d s
    by (simp add: commit_p0_def cong: option.case_cong if_cong)
  then show "saveTimeForLastTab_p0 (e\<lparr>tabs := tb\<rparr>) st0 = saveTimeForLastTab_p0 e st0"
    by (cases "info_startTime (slot st0)") (simp_all add: saveTimeForLastTab_p0_def)
next
  fix k
  assume a: "truthy_num (info_id (slot st0)) \<and> info_startTime (slot st0) = Some t0 \<and> t0 \<noteq> 0
        \<and> 0 < duration (nowEnd e) t0
        \<and> info_url (slot st0) = Some u \<and> hostname e u = Some h
        \<and> saveGetOk e \<and> saveSetOk e"
    and c: "map_of (websiteTime (store (saveTimeForLastTab_p0 e st0))) k
              \<noteq> map_of (websiteTime (store st0)) k"
  from a have w: "websiteTime (store (saveTimeForLastTab_p0 e st0))
      = accumulate_p0 h (info_title (slot st0)) (duration (nowEnd e) t0) (websiteTime (store st0))"
    by (simp add: saveTimeForLastTab_p0_def commit_p0_def)
  from c have "map_of (accumulate_p0 h (info_title (slot st0)) (duration (nowEnd e) t0)
        (websiteTime (store st0))) k \<noteq> map_of (websiteTime (store st0)) k"
    unfolding w .
  then show "k = h" by (rule accumulate_p0_changes)
next
  assume "truthy_num (info_id (slot st0)) \<and> info_startTime (slot st0) = Some t0 \<and> t0 \<noteq> 0
        \<and> 0 < duration (nowEnd e) t0
        \<and> info_url (slot st0) = Some u \<and> hostname e u = Some h
        \<and> saveGetOk e \<and> saveSetOk e"
    and "h \<notin> set objectPrototype"
  then show "map_of (websiteTime (store (saveTimeForLastTab_p0 e st0)))
             = (map_of (websiteTime (store st0)))(h \<mapsto>
                 \<lparr>entryTitle = (case map_of (websiteTime (store st0)) h of
                                  None \<Rightarrow> info_title (slot st0) | Some x \<Rightarrow> entryTitle x),
                  totalTime = add (total h (websiteTime (store st0)))
                                  (Num (duration (nowEnd e) t0))\<rparr>)"
    by (simp add: saveTimeForLastTab_p0_def commit_p0_def map_of_accumulate_p0)
qed

theorem commit_resolution_witness:
  "saveTimeForLastTab (world 6000 (\<lambda>i. None) offline) timingA = timingA
   \<and> map_of (websiteTime (store (saveTimeForLastTab (world 6000 browserLater offline) timingA))) ''a.example''
       = Some \<lparr>entryTitle = Some ''Sent'', totalTime = Num 5\<rparr>
   \<and> map_of (websiteTime (store (saveTimeForLastTab_p0 (world 6000 browserLater offline) timingA_p0))) ''a.example''
       = Some \<lparr>entryTitle = Some ''Inbox'', totalTime = Num 5\<rparr>"
proof -
  have a: "saveTimeForLastTab (world 6000 (\<lambda>i. None) offline) timingA = timingA"
    by (rule commit_resolution [where st = timingA and i = 1 and e = "world 6000 (\<lambda>i. None) offline",
          THEN conjunct1, THEN mp, THEN conjunct1])
       (simp add: timingA_eq world_def)
  have b: "map_of (websiteTime (store (saveTimeForLastTab (world 6000 browserLater offline) timingA)))
      = (map_of (websiteTime (store timingA)))(''a.example'' \<mapsto>
          \<lparr>entryTitle = title (tabA\<lparr>title := Some ''Sent''\<rparr>),
           totalTime = add (total ''a.example'' (websiteTime (store timingA)))
                           (Num (duration (nowEnd (world 6000 browserLater offline)) 1000))\<rparr>)"
    by (rule commit_resolution [where st = timingA and i = 1 and e = "world 6000 browserLater offline"
          and ?t0.0 = 1000 and t = "tabA\<lparr>title := Some ''Sent''\<rparr>"
          and u = "''https://a.example/inbox''" and h = "''a.example''",
          THEN conjunct2, THEN conjunct1, THEN mp, THEN conjunct2, THEN conjunct1, THEN mp])
       (simp_all add: timingA_eq world_def browserLater_def tabA_def hosts_def internal_def
          startsWith_def duration_def)
  have c: "map_of (websiteTime (store (saveTimeForLastTab_p0 (world 6000 browserLater offline) timingA_p0)))
      = (map_of (websiteTime (store timingA_p0)))(''a.example'' \<mapsto>
          \<lparr>entryTitle = (case map_of (websiteTime (store timingA_p0)) ''a.example'' of
                           None \<Rightarrow> info_title (slot timingA_p0) | Some x \<Rightarrow> entryTitle x),
           totalTime = add (total ''a.example'' (websiteTime (store timingA_p0)))
                           (Num (duration (nowEnd (world 6000 browserLater offline)) 1000))\<rparr>)"
    by (rule commit_resolution [where e = "world 6000 browserLater offline"
          and ?t0.0 = 1000 and u = "''https://a.example/inbox''" and h = "''a.example''"
          and ?st0.0 = timingA_p0,
          THEN conjunct2, THEN conjunct2, THEN conjunct2, THEN mp, THEN conjunct2, THEN mp])
       (simp_all add: timingA_p0_eq world_def hosts_def duration_def)
  show ?thesis
    using a unfolding b c
    by (simp add: timingA_eq timingA_p0_eq emptyStorage_def total_def duration_def
        world_def tabA_def)
qed

subsection \<open>Double counting\<close>

lemma stamps_snoc [simp]: "stamps (log @ [(h, a, b)]) = stamps log @ [a, b]"
  by (simp add: stamps_def)

lemma stamps_Nil [simp]: "stamps [] = []"
  by (simp add: stamps_def)










lemma committed_sync_p0 [simp]: "committed (sync_p0 e tok st) = committed st"
  by (simp add: sync_p0_def Let_def)








lemma credited_snoc [simp]:
  "credited h (log @ [(k, a, b)]) = credited h log + (if k = h then duration b a else 0)"
  by (simp add: credited_def)







lemma balanced_slot [simp]: "balanced (st\<lparr>slot := a\<rparr>) = balanced st"
  by (simp add: balanced_def)








text \<open>The two phases of the commit, run without interruption, are the commit.\<close>

lemma saveTimeForLastTab_phases:
  "saveTimeForLastTab e st = resumeCommit e (pendingCommit e st) st"
  by (simp add: saveTimeForLastTab_def pendingCommit_def resumeCommit_def split: option.splits)

text \<open>
  Why the schedule matters. In \<^verbatim>\<open>background.js\<close>, tab 1 has been timed since 1000 ms; at
  6000 ms two tab changes arrive so that the second handler starts while the first is
  suspended in its commit. Both have read the slot before either assigns it, both commit
  the interval from 1000 ms to 6000 ms, and the ledger holds 10 seconds for the 5 seconds
  the tab was timed. The serialised run of the same two events commits the interval once.
\<close>

lemma overlapping_handlers_count_twice:
  "websiteTime (store (overlapped (world 6000 browser offline) 2 (world 6000 browser offline) 3 timingA))
     = [(''a.example'', \<lparr>entryTitle = Some ''Inbox'', totalTime = Num 10\<rparr>)]
   \<and> committed (overlapped (world 6000 browser offline) 2 (world 6000 browser offline) 3 timingA)
     = [(''a.example'', 1000, 6000), (''a.example'', 1000, 6000)]
   \<and> websiteTime (store (run [(world 6000 browser offline, Activated 2),
                               (world 6000 browser offline, Activated 3)] timingA))
     = [(''a.example'', \<lparr>entryTitle = Some ''Inbox'', totalTime = Num 5\<rparr>)]"
  by (simp add: timingA_eq emptyStorage_def overlapped_def pendingCommit_def resumeCommit_def
      handleTabChange_def saveTimeForLastTab_def commit_def accumulate_def Let_def
      duration_def world_def browser_def tabA_def tabB_def hosts_def internal_def startsWith_def)




subsection \<open>Internal pages\<close>

lemma external_save_p0: "external (slot st) \<Longrightarrow> external (slot (saveTimeForLastTab_p0 e st))"
  using slot_save_p0 [of e st] by (auto simp: external_def noTab_def)

lemma external_process_p0: "external (slot st) \<Longrightarrow> external (slot (processTabChange_p0 e i st))"
  using external_save_p0 [of st e]
  by (auto simp: processTabChange_p0_def Let_def external_def split: option.splits)

lemma external_step_p0:
  assumes ex: "external (slot st)"
  shows "external (slot (step_p0 e ev st))"
proof (cases ev)
  case (Alarm n)
  then show ?thesis
    using ex external_save_p0 [OF ex, of e]
    by (simp add: onAlarm_p0_def Let_def slot_sync_p0 split: option.splits)
qed (use ex in \<open>auto simp: onUpdated_p0_def onRemoved_p0_def onFocusChanged_p0_def
         intro: external_process_p0 external_save_p0 split: option.splits\<close>)

lemma external_run_p0: "external (slot st) \<Longrightarrow> external (slot (run_p0 evs st))"
  by (induction evs arbitrary: st) (auto intro: external_step_p0)

lemma settled_save_p0: "settled (slot st) \<Longrightarrow> slot (saveTimeForLastTab_p0 e st) = noTab"
  using save_p0_clears_slot [of st e]
  by (auto simp: settled_def saveTimeForLastTab_p0_def noTab_def)

lemma settled_process_p0:
  assumes "settled (slot st)" and "ordinary e"
  shows "settled (slot (processTabChange_p0 e i st))"
proof (cases "i = 0")
  case True
  with assms show ?thesis
    by (simp add: processTabChange_p0_def Let_def ordinary_def settled_save_p0 settled_def)
next
  case False
  with assms show ?thesis
    by (auto simp: processTabChange_p0_def Let_def ordinary_def settled_save_p0 settled_def
        split: option.splits)
qed

lemma settled_step_p0:
  assumes "settled (slot st)" and "ordinary e"
  shows "settled (slot (step_p0 e ev st))"
proof (cases ev)
  case (Alarm n)
  then show ?thesis
    using assms(1) settled_save_p0 [OF assms(1), of e]
    by (simp add: onAlarm_p0_def Let_def slot_sync_p0 settled_def split: option.splits)
qed (use assms in \<open>auto simp: onUpdated_p0_def onRemoved_p0_def onFocusChanged_p0_def
         settled_save_p0 settled_process_p0 settled_def [of noTab] split: option.splits\<close>)

lemma settled_run_p0:
  "settled (slot st) \<Longrightarrow> \<forall>x \<in> set evs. ordinary (fst x) \<Longrightarrow> settled (slot (run_p0 evs st))"
  by (induction evs arbitrary: st) (auto intro: settled_step_p0)

lemma run_p0_append: "run_p0 (xs @ ys) st = run_p0 ys (run_p0 xs st)"
  by (induction xs arbitrary: st) auto

lemma internal_activation_p0:
  assumes "tabs e i = Some t" and "url t = Some u" and "internal u" and "i \<noteq> TAB_ID_NONE"
    and "settled (slot st)"
  shows "slot (processTabChange_p0 e i st) = noTab"
  using assms by (simp add: processTabChange_p0_def Let_def settled_save_p0)

text \<open>
  C8 (as stated, refuted). In \<^verbatim>\<open>background.js\<close>, tab 3 shows \<^verbatim>\<open>chrome://settings/\<close>; its
  activation at 1000 ms opens the slot for it: \<^verbatim>\<open>handleTabChange\<close> never looks at the URL.
\<close>

theorem internal_activation_counterexample:
  "browser 3 = Some tabSettings
   \<and> url tabSettings = Some ''chrome://settings/''
   \<and> internal ''chrome://settings/''
   \<and> slot (handleTabChange (world 1000 browser offline) 3 init)
       = \<lparr>lastTabId = Some 3, startTime = Some 1000\<rparr>"
  by (simp add: browser_def tabSettings_def internal_def startsWith_def handleTabChange_def
      world_def init_def idle_def)

text \<open>
  C8 (amended). In \<^verbatim>\<open>part_000\<close>, processing the activation of a tab whose URL starts with
  \<^verbatim>\<open>chrome://\<close> ends with the empty slot: from any settled slot, hence after any sequence
  of events in ordinary worlds; and after any sequence of events at all the URL held by
  the slot is not an internal one, so that nothing is committed under one. In \<^verbatim>\<open>background.js\<close> the
  internal page is excluded when committing instead: a commit for a tab whose present URL
  starts with \<^verbatim>\<open>chrome://\<close> leaves the storage area as it was.
\<close>

theorem internal_pages:
  "(tabs e i = Some t \<and> url t = Some u \<and> internal u \<and> i \<noteq> TAB_ID_NONE \<and> settled (slot st0)
     \<longrightarrow> slot (processTabChange_p0 e i st0) = noTab)
   \<and> (tabs e i = Some t \<and> url t = Some u \<and> internal u \<and> i \<noteq> TAB_ID_NONE
       \<and> (\<forall>x \<in> set evs. ordinary (fst x))
     \<longrightarrow> slot (run_p0 (evs @ [(e, Activated i)]) init_p0) = noTab)
   \<and> external (slot (run_p0 evs init_p0))
   \<and> (tabs e i = Some t \<and> url t = Some u \<and> internal u \<longrightarrow> commit e i t0 d st = st)
   \<and> (lastTabId (slot st) = Some i \<and> tabs e i = Some t \<and> url t = Some u \<and> internal u
     \<longrightarrow> store (saveTimeForLastTab e st) = store st)"
proof (intro conjI impI)
  assume a: "tabs e i = Some t \<and> url t = Some u \<and> internal u \<and> i \<noteq> TAB_ID_NONE \<and> settled (slot st0)"
  then show "slot (processTabChange_p0 e i st0) = noTab"
    by (simp add: internal_activation_p0)
next
  assume a: "tabs e i = Some t \<and> url t = Some u \<and> internal u \<and> i \<noteq> TAB_ID_NONE
       \<and> (\<forall>x \<in> set evs. ordinary (fst x))"
  then have "settled (slot (run_p0 evs init_p0))"
    by (intro settled_run_p0) (simp_all add: settled_def init_p0_def)
  with a have "slot (processTabChange_p0 e i (run_p0 evs init_p0)) = noTab"
    by (simp add: internal_activation_p0)
  then show "slot (run_p0 (evs @ [(e, Activated i)]) init_p0) = noTab"
    by (simp add: run_p0_append)
next
  show "external (slot (run_p0 evs init_p0))"
    by (rule external_run_p0) (simp add: external_def init_p0_def noTab_def)
next
  assume "tabs e i = Some t \<and> url t = Some u \<and> internal u"
  then show "commit e i t0 d st = st" by (simp add: commit_def)
next
  assume "lastTabId (slot st) = Some i \<and> tabs e i = Some t \<and> url t = Some u \<and> internal u"
  then show "store (saveTimeForLastTab e st) = store st"
    by (simp add: saveTimeForLastTab_def commit_def split: option.splits)
qed

theorem internal_pages_witness:
  "slot (processTabChange_p0 (world 6000 browser offline) 3 timingA_p0) = noTab
   \<and> slot (run_p0 ([(world 1000 browser offline, Activated 1)]
                    @ [(world 6000 browser offline, Activated 3)]) init_p0) = noTab
   \<and> external (slot (run_p0 [(world 1000 browser offline, Activated 1)] init_p0))
   \<and> store (saveTimeForLastTab (world 6000 browser offline)
        (handleTabChange (world 1000 browser offline) 3 init)) = emptyStorage"
  using internal_pages [where e = "world 6000 browser offline" and i = 3 and t = tabSettings
          and u = "''chrome://settings/''" and ?st0.0 = timingA_p0
          and evs = "[(world 1000 browser offline, Activated 1)]"
          and st = "handleTabChange (world 1000 browser offline) 3 init"]
  by (simp add: timingA_p0_eq init_def world_def browser_def tabSettings_def settled_def
      ordinary_def internal_def startsWith_def TAB_ID_NONE_def handleTabChange_def idle_def)

subsection \<open>Login\<close>

text \<open>
  C10 (as stated, refuted). The backend answers the login with status 500 and a body that
  has no \<^verbatim>\<open>error\<close> member. In \<^verbatim>\<open>background.js\<close> and in \<^verbatim>\<open>part_000\<close> the result is the
  object whose \<^verbatim>\<open>error\<close> is undefined: it carries no message.
\<close>

theorem login_without_message_counterexample:
  "fst (loginUser (world 0 browser (\<lambda>r. Response False (JObject None None))) ''u'' ''p'' init)
     = Error None
   \<and> fst (loginUser_p0 (world 0 browser (\<lambda>r. Response False (JObject None None))) ''u'' ''p'' init_p0)
     = Error None"
  by (simp add: loginUser_def loginUser_p0_def Let_def world_def)

text \<open>
  C10 (amended). In \<^verbatim>\<open>part_000\<close> and in \<^verbatim>\<open>background.js\<close>, a login whose request fails in
  transport or whose answer cannot be parsed (or is \<^verbatim>\<open>null\<close>) returns the error object with
  the fixed message and leaves the storage area as it was; a login answered with a non-2xx
  status returns the error object carrying the \<^verbatim>\<open>error\<close> member of the answer (the
  backend's message when the answer has one, nothing when it has none) and leaves the
  storage area as it was; and the storage area changes only when the answer has a 2xx
  status. \<open>loginUser\<close> is a total function into replies: every throw of the source is one
  of its branches.
\<close>

theorem login_errors:
  "(fetch e (LoginReq usr pwd) = NetworkError \<or> fetch e (LoginReq usr pwd) = Response ok Unparsable
      \<or> fetch e (LoginReq usr pwd) = Response ok JNull
      \<longrightarrow> fst (loginUser_p0 e usr pwd st) = Error (Some connectError_p0)
          \<and> store (snd (loginUser_p0 e usr pwd st)) = store st
          \<and> fst (loginUser e usr pwd st) = Error (Some connectError)
          \<and> store (snd (loginUser e usr pwd st)) = store st)
   \<and> (fetch e (LoginReq usr pwd) = Response False (JObject t er)
      \<longrightarrow> fst (loginUser_p0 e usr pwd st) = Error er
          \<and> store (snd (loginUser_p0 e usr pwd st)) = store st
          \<and> fst (loginUser e usr pwd st) = Error er
          \<and> store (snd (loginUser e usr pwd st)) = store st)
   \<and> (store (snd (loginUser_p0 e usr pwd st)) \<noteq> store st
        \<or> store (snd (loginUser e usr pwd st)) \<noteq> store st
      \<longrightarrow> (\<exists>b. fetch e (LoginReq usr pwd) = Response True b))"
  by (auto simp: loginUser_p0_def loginUser_def Let_def split: response.splits body.splits)

theorem login_errors_witness:
  "fst (loginUser_p0 (world 0 browser offline) ''u'' ''p'' init_p0) = Error (Some connectError_p0)
   \<and> store (snd (loginUser (world 0 browser offline) ''u'' ''p'' init)) = emptyStorage
   \<and> fst (loginUser (world 0 browser (\<lambda>r. Response False (JObject None (Some ''Invalid credentials''))))
            ''u'' ''p'' init) = Error (Some ''Invalid credentials'')
   \<and> store (snd (loginUser_p0 (world 0 browser (\<lambda>r. Response False (JObject None (Some ''Invalid credentials''))))
            ''u'' ''p'' init_p0)) = emptyStorage
   \<and> store (snd (loginUser (world 0 browser (\<lambda>r. Response True (JObject (Some ''tok'') None)))
            ''u'' ''p'' init)) \<noteq> emptyStorage"
  using login_errors [of "world 0 browser offline" "''u''" "''p''" False init_p0 None None]
        login_errors [of "world 0 browser offline" "''u''" "''p''" False init None None]
        login_errors [of "world 0 browser (\<lambda>r. Response False (JObject None (Some ''Invalid credentials'')))"
                         "''u''" "''p''" False init None "Some ''Invalid credentials''"]
        login_errors [of "world 0 browser (\<lambda>r. Response False (JObject None (Some ''Invalid credentials'')))"
                         "''u''" "''p''" False init_p0 None "Some ''Invalid credentials''"]
  by (simp add: world_def offline_def init_p0_def init_def loginUser_def Let_def emptyStorage_def)

end
